theory Spec2Isabelle
  imports Complex_Main "HOL-Library.AList"
begin

chapter \<open>Thermodynamic ensembles and their evolution: a model of the eee sources\<close>

text \<open>
  The theory embeds the Python sources \<^verbatim>\<open>eee/evolve/genotype.py\<close>,
  \<^verbatim>\<open>eee/evolve/wright_fisher.py\<close>, \<^verbatim>\<open>eee/core/ensemble.py\<close> and the branch target
  of \<^verbatim>\<open>eee/simulation/core/engine/follow_tree.py\<close>. Conventions:
  \<^item> Python floats are real numbers. The one floating-point effect that the sources
    themselves test for, the underflow of \<^verbatim>\<open>np.exp\<close> to zero, is kept (see \<open>np_exp\<close>
    below); rounding is not modelled.
  \<^item> A dictionary is an association list in insertion order with distinct keys.
  \<^item> An exception is the left summand of \<open>error + 'a\<close>.
  \<^item> The pseudo-random generator is a tape of raw draws (natural numbers) that the
    stochastic operations consume from the front.
\<close>

section \<open>Python values, errors and containers\<close>

text \<open>
  \<open>OutOfRandomness\<close> is not a Python exception. It marks a run that asks for more draws
  than the tape holds; for the resampling loop of \<open>mutate\<close> it is the run that has not
  left the loop yet.
\<close>

datatype error = ValueError | TypeError | IndexError | KeyError | AttributeError
  | OutOfRandomness | NonFinite

text \<open>Keys of the mutation table: Python integers or strings.\<close>

datatype pykey = KInt int | KStr string

type_synonym rng = "nat list"

fun ebind :: "error + 'a \<Rightarrow> ('a \<Rightarrow> error + 'b) \<Rightarrow> error + 'b" where
  "ebind (Inl e) f = Inl e"
| "ebind (Inr x) f = f x"

text \<open>\<^verbatim>\<open>xs[i]\<close> on a Python list: negative indices count from the end.\<close>

definition py_index :: "'a list \<Rightarrow> int \<Rightarrow> error + 'a" where
  "py_index xs i =
     (if 0 \<le> i \<and> i < int (length xs) then Inr (xs ! nat i)
      else if i < 0 \<and> - int (length xs) \<le> i then Inr (xs ! nat (int (length xs) + i))
      else Inl IndexError)"

text \<open>\<^verbatim>\<open>xs.index(x)\<close>: the first position of \<open>x\<close>.\<close>

fun list_index :: "'a list \<Rightarrow> 'a \<Rightarrow> error + nat" where
  "list_index [] x = Inl ValueError"
| "list_index (y # ys) x =
     (if y = x then Inr 0
      else case list_index ys x of Inl e \<Rightarrow> Inl e | Inr i \<Rightarrow> Inr (Suc i))"

text \<open>\<^verbatim>\<open>xs.remove(x)\<close>: deletes the first element equal to \<open>x\<close>, ValueError if there is none.\<close>

definition list_remove :: "'a \<Rightarrow> 'a list \<Rightarrow> error + 'a list" where
  "list_remove x xs = (if x \<in> set xs then Inr (remove1 x xs) else Inl ValueError)"

text \<open>\<^verbatim>\<open>d[k]\<close> on a dictionary.\<close>

definition dict_get :: "('k \<times> 'v) list \<Rightarrow> 'k \<Rightarrow> error + 'v" where
  "dict_get d k = (case map_of d k of None \<Rightarrow> Inl KeyError | Some v \<Rightarrow> Inr v)"

text \<open>
  \<^verbatim>\<open>np.random.choice(a)\<close> with neither size nor weights: one element of \<open>a\<close>, chosen
  by the next draw of the tape.
\<close>

definition np_random_choice :: "'a list \<Rightarrow> rng \<Rightarrow> error + ('a \<times> rng)" where
  "np_random_choice a rng =
     (if a = [] then Inl ValueError
      else case rng of [] \<Rightarrow> Inl OutOfRandomness
           | d # rng' \<Rightarrow> Inr (a ! (d mod length a), rng'))"

section \<open>Genotype (eee/evolve/genotype.py)\<close>

text \<open>\<^verbatim>\<open>ddg_dict[site][mutation][species]\<close>.\<close>

type_synonym ddg_table = "(pykey \<times> (pykey \<times> (string \<times> real) list) list) list"

text \<open>
  Of the ensemble a genotype only reads \<^verbatim>\<open>ens.species\<close>, kept here as \<open>ens_species\<close>.
  The private attributes keep their names without the leading underscore.
\<close>

record genotype =
  ens_species :: "string list"
  ddg_dict :: ddg_table
  sites :: "pykey list"
  mutations :: "pykey list"
  mut_energy :: "(string \<times> real) list"
  possible_sites :: "pykey list"
  mutations_at_sites :: "pykey list list"

definition Genotype_init ::
  "string list \<Rightarrow> ddg_table \<Rightarrow> pykey list option \<Rightarrow> pykey list option \<Rightarrow>
   (string \<times> real) list option \<Rightarrow> genotype" where
  "Genotype_init species ddg s m me =
     \<lparr> ens_species = species,
       ddg_dict = ddg,
       sites = (case s of None \<Rightarrow> [] | Some xs \<Rightarrow> xs),
       mutations = (case m of None \<Rightarrow> [] | Some xs \<Rightarrow> xs),
       mut_energy = (case me of Some e \<Rightarrow> e
                     | None \<Rightarrow> fold (\<lambda>sp d. AList.update sp 0 d) species []),
       possible_sites = map fst ddg,
       mutations_at_sites = map (\<lambda>entry. map fst (snd entry)) ddg \<rparr>"

definition Genotype_copy :: "genotype \<Rightarrow> genotype" where
  "Genotype_copy g =
     Genotype_init (ens_species g) (ddg_dict g) (Some (sites g)) (Some (mutations g))
       (Some (mut_energy g))"

text \<open>
  The loop \<^verbatim>\<open>for species in ddg: self._mut_energy[species] -= ddg[species]\<close> of
  \<open>mutate\<close>; the in-place subtraction raises KeyError for a species that
  \<open>mut_energy\<close> does not hold.
\<close>

fun subtract_energies ::
  "(string \<times> real) list \<Rightarrow> (string \<times> real) list \<Rightarrow> error + (string \<times> real) list" where
  "subtract_energies [] me = Inr me"
| "subtract_energies ((sp, v) # rest) me =
     (case map_of me sp of
        None \<Rightarrow> Inl KeyError
      | Some e \<Rightarrow> subtract_energies rest (AList.update sp (e - v) me))"

text \<open>
  The loop \<^verbatim>\<open>while True: mutation = np.random.choice(cands); if mutation != prev_mut: break\<close>.
  Each round takes one draw; the recursion is on the tape.
\<close>

fun choose_mutation :: "pykey list \<Rightarrow> pykey option \<Rightarrow> rng \<Rightarrow> error + (pykey \<times> rng)" where
  "choose_mutation cands prev [] = (if cands = [] then Inl ValueError else Inl OutOfRandomness)"
| "choose_mutation cands prev (d # rng) =
     (if cands = [] then Inl ValueError
      else let mutation = cands ! (d mod length cands)
           in if Some mutation \<noteq> prev then Inr (mutation, rng)
              else choose_mutation cands prev rng)"

text \<open>
  \<^verbatim>\<open>Genotype.mutate\<close>, statement by statement. \<^verbatim>\<open>self._sites.remove(idx)\<close> and
  \<^verbatim>\<open>self._mutations.remove(idx)\<close> are calls of \<^verbatim>\<open>list.remove\<close> with the integer
  position \<open>idx\<close> as the value to delete. \<^verbatim>\<open>self._mutations_at_sites\<close> is a list, so
  \<^verbatim>\<open>self._mutations_at_sites[site]\<close> reads it at the position \<open>site\<close> and is a
  TypeError for a site that is a string. The method ends with the two appends: no
  statement adds the new mutation's energies.
\<close>

definition mutate :: "genotype \<Rightarrow> rng \<Rightarrow> error + (genotype \<times> rng)" where
  "mutate g rng =
     ebind (np_random_choice (possible_sites g) rng) (\<lambda>(site, rng1).
     ebind (if site \<in> set (sites g) then
              ebind (list_index (sites g) site) (\<lambda>idx.
              ebind (py_index (mutations g) (int idx)) (\<lambda>prev_mut.
              ebind (dict_get (ddg_dict g) site) (\<lambda>at_site.
              ebind (dict_get at_site prev_mut) (\<lambda>ddg.
              ebind (subtract_energies ddg (mut_energy g)) (\<lambda>me.
              ebind (list_remove (KInt (int idx)) (sites g)) (\<lambda>ss.
              ebind (list_remove (KInt (int idx)) (mutations g)) (\<lambda>ms.
              Inr (Some prev_mut, g\<lparr>mut_energy := me, sites := ss, mutations := ms\<rparr>))))))))
            else Inr (None, g)) (\<lambda>(prev_mut, g1).
     ebind (case site of KInt i \<Rightarrow> py_index (mutations_at_sites g1) i
                       | KStr s \<Rightarrow> Inl TypeError) (\<lambda>cands.
     ebind (choose_mutation cands prev_mut rng1) (\<lambda>(mutation, rng2).
     Inr (g1\<lparr>sites := sites g1 @ [site], mutations := mutations g1 @ [mutation]\<rparr>, rng2)))))"

text \<open>
  What the specification says \<open>mut_energy\<close> holds for a species: the sum of the
  mutation table's entries over the active (site, mutation) pairs. This definition
  follows the specification's words, for comparison with \<open>mutate\<close>.
\<close>

definition ddg_entry :: "ddg_table \<Rightarrow> pykey \<Rightarrow> pykey \<Rightarrow> string \<Rightarrow> real" where
  "ddg_entry ddg site mutation sp =
     (case map_of ddg site of None \<Rightarrow> 0
      | Some at_site \<Rightarrow>
          (case map_of at_site mutation of None \<Rightarrow> 0
           | Some d \<Rightarrow> (case map_of d sp of None \<Rightarrow> 0 | Some v \<Rightarrow> v)))"

definition spec_mut_energy :: "genotype \<Rightarrow> string \<Rightarrow> real" where
  "spec_mut_energy g sp =
     sum_list (map (\<lambda>(site, mutation). ddg_entry (ddg_dict g) site mutation sp)
                   (zip (sites g) (mutations g)))"

section \<open>GenotypeContainer\<close>

text \<open>
  Modelled from the spec: the class \<^verbatim>\<open>GenotypeContainer\<close> that
  \<^verbatim>\<open>wright_fisher\<close> imports is not among the sources. The specification describes
  it as an indexed, append-only collection of genotypes with a parallel array of
  fitness values, supporting lookup by integer index and the creation of a new genotype
  by mutating an existing one, returning the new genotype's index. The fitness evaluator
  is external and is the parameter \<open>fit\<close>.
\<close>

record genotype_container =
  genotypes :: "genotype list"
  fitnesses :: "real list"

definition gc_mutate ::
  "(genotype \<Rightarrow> real) \<Rightarrow> genotype_container \<Rightarrow> int \<Rightarrow> rng \<Rightarrow>
   error + (genotype_container \<times> int \<times> rng)" where
  "gc_mutate fit gc index rng =
     ebind (py_index (genotypes gc) index) (\<lambda>parent.
     ebind (mutate (Genotype_copy parent) rng) (\<lambda>(child, rng').
     Inr (gc\<lparr>genotypes := genotypes gc @ [child], fitnesses := fitnesses gc @ [fit child]\<rparr>,
          int (length (genotypes gc)), rng')))"

section \<open>Wright-Fisher simulation (eee/evolve/wright_fisher.py)\<close>

text \<open>The three shapes of the \<open>population\<close> argument: a dictionary, a list, an integer.\<close>

datatype population_arg = PopDict "(int \<times> int) list" | PopList "int list" | PopInt int

text \<open>\<^verbatim>\<open>np.unique(population, return_counts=True)\<close>: the sorted distinct values and their counts.\<close>

definition np_unique :: "int list \<Rightarrow> int list \<times> nat list" where
  "np_unique population =
     (let seen = remdups (sort population) in (seen, map (count_list population) seen))"

text \<open>
  \<^verbatim>\<open>np.random.choice(a, size=size, p=p, replace=True)\<close>. numpy refuses an empty \<open>a\<close>, a
  \<open>p\<close> whose length is not that of \<open>a\<close> (\<^verbatim>\<open>'a' and 'p' must have same size\<close>), a
  negative probability and probabilities that do not sum to one, each with a ValueError.
  Every sample then falls on an element of positive probability.
\<close>

fun take_draws :: "nat \<Rightarrow> 'a list \<Rightarrow> rng \<Rightarrow> error + ('a list \<times> rng)" where
  "take_draws 0 support rng = Inr ([], rng)"
| "take_draws (Suc n) support [] = Inl OutOfRandomness"
| "take_draws (Suc n) support (d # rng) =
     (case take_draws n support rng of
        Inl e \<Rightarrow> Inl e
      | Inr (xs, rng') \<Rightarrow> Inr (support ! (d mod length support) # xs, rng'))"

definition np_random_choice_p ::
  "int list \<Rightarrow> nat \<Rightarrow> real list \<Rightarrow> rng \<Rightarrow> error + (int list \<times> rng)" where
  "np_random_choice_p a size' p rng =
     (if a = [] \<and> size' \<noteq> 0 then Inl ValueError
      else if length p \<noteq> length a then Inl ValueError
      else if list_ex (\<lambda>x. x < 0) p then Inl ValueError
      else if sum_list p \<noteq> 1 then Inl ValueError
      else take_draws size' (map fst (filter (\<lambda>(x, w). 0 < w) (zip a p))) rng)"

text \<open>\<^verbatim>\<open>np.random.poisson(lam)\<close>: a natural number, zero when \<open>lam\<close> is zero.\<close>

definition np_random_poisson :: "real \<Rightarrow> rng \<Rightarrow> error + (nat \<times> rng)" where
  "np_random_poisson lam rng =
     (if lam < 0 then Inl ValueError
      else case rng of [] \<Rightarrow> Inl OutOfRandomness
           | d # rng' \<Rightarrow> Inr (if lam = 0 then 0 else d, rng'))"

text \<open>
  The container is a parameter of the simulation: \<open>fitness_of\<close> reads its fitness array
  and \<open>mutate_in\<close> is its \<^verbatim>\<open>mutate(index=...)\<close> method.

  The loop \<^verbatim>\<open>for j in range(num_to_mutate)\<close>: the first \<open>num_to_mutate\<close> members of
  the population are replaced by new mutants. \<open>done\<close> holds the members already
  replaced, \<open>todo\<close> those from position \<open>j\<close> on.
\<close>

fun mutate_first ::
  "('gc \<Rightarrow> int \<Rightarrow> rng \<Rightarrow> error + ('gc \<times> int \<times> rng)) \<Rightarrow> nat \<Rightarrow> 'gc \<Rightarrow> int list \<Rightarrow>
   int list \<Rightarrow> rng \<Rightarrow> error + ('gc \<times> int list \<times> rng)" where
  "mutate_first mutate_in 0 gc done todo rng = Inr (gc, done @ todo, rng)"
| "mutate_first mutate_in (Suc n) gc done [] rng = Inl IndexError"
| "mutate_first mutate_in (Suc n) gc done (g # todo) rng =
     (case mutate_in gc g rng of
        Inl e \<Rightarrow> Inl e
      | Inr (gc', new_index, rng') \<Rightarrow>
          mutate_first mutate_in n gc' (done @ [new_index]) todo rng')"

text \<open>A list comprehension whose elements may raise: the first exception wins.\<close>

fun those_ok :: "(error + 'a) list \<Rightarrow> error + 'a list" where
  "those_ok [] = Inr []"
| "those_ok (Inl e # rs) = Inl e"
| "those_ok (Inr x # rs) = (case those_ok rs of Inl e \<Rightarrow> Inl e | Inr xs \<Rightarrow> Inr (x # xs))"

text \<open>One round of the generation loop, from the last recorded generation.\<close>

definition wf_step ::
  "('gc \<Rightarrow> real list) \<Rightarrow> ('gc \<Rightarrow> int \<Rightarrow> rng \<Rightarrow> error + ('gc \<times> int \<times> rng)) \<Rightarrow>
   nat \<Rightarrow> real \<Rightarrow> 'gc \<Rightarrow> int list \<times> nat list \<Rightarrow> rng \<Rightarrow>
   error + ('gc \<times> (int list \<times> nat list) \<times> rng)" where
  "wf_step fitness_of mutate_in population_size expected_num_mutations gc last_gen rng =
     (case last_gen of (current_genotypes, counts) \<Rightarrow>
      ebind (those_ok (map (py_index (fitness_of gc)) current_genotypes)) (\<lambda>fs.
      let prob = map2 (\<lambda>f c. f * real c) fs counts;
          prob = (if sum_list prob = 0 then replicate population_size 1 else prob);
          prob = map (\<lambda>x. x / sum_list prob) prob
      in
      ebind (np_random_choice_p current_genotypes population_size prob rng) (\<lambda>(population, rng1).
      ebind (np_random_poisson expected_num_mutations rng1) (\<lambda>(num_to_mutate, rng2).
      let num_to_mutate = (if num_to_mutate > population_size then population_size
                           else num_to_mutate)
      in
      ebind (mutate_first mutate_in num_to_mutate gc [] population rng2) (\<lambda>(gc', population', rng3).
      Inr (gc', np_unique population', rng3))))))"

text \<open>The loop \<^verbatim>\<open>for _ in range(1,num_generations)\<close>, on the number of rounds left.\<close>

fun wf_loop ::
  "('gc \<Rightarrow> real list) \<Rightarrow> ('gc \<Rightarrow> int \<Rightarrow> rng \<Rightarrow> error + ('gc \<times> int \<times> rng)) \<Rightarrow>
   nat \<Rightarrow> real \<Rightarrow> nat \<Rightarrow> 'gc \<Rightarrow> (int list \<times> nat list) list \<Rightarrow> rng \<Rightarrow>
   error + ('gc \<times> (int list \<times> nat list) list \<times> rng)" where
  "wf_loop fitness_of mutate_in population_size lam 0 gc generations rng =
     Inr (gc, generations, rng)"
| "wf_loop fitness_of mutate_in population_size lam (Suc n) gc generations rng =
     (case wf_step fitness_of mutate_in population_size lam gc (last generations) rng of
        Inl e \<Rightarrow> Inl e
      | Inr (gc', gen, rng') \<Rightarrow>
          wf_loop fitness_of mutate_in population_size lam n gc' (generations @ [gen]) rng')"

text \<open>The population as an array of genotype indexes, and its size.\<close>

definition population_array :: "population_arg \<Rightarrow> int list" where
  "population_array population =
     (case population of
        PopDict d \<Rightarrow> concat (map (\<lambda>(p, c). replicate (nat c) p) d)
      | PopList xs \<Rightarrow> xs
      | PopInt n \<Rightarrow> replicate (nat n) 0)"

definition population_size_of :: "population_arg \<Rightarrow> int" where
  "population_size_of population =
     (case population of PopInt n \<Rightarrow> n | _ \<Rightarrow> int (length (population_array population)))"

definition wright_fisher ::
  "('gc \<Rightarrow> real list) \<Rightarrow> ('gc \<Rightarrow> int \<Rightarrow> rng \<Rightarrow> error + ('gc \<times> int \<times> rng)) \<Rightarrow>
   'gc \<Rightarrow> population_arg \<Rightarrow> real \<Rightarrow> int \<Rightarrow> rng \<Rightarrow>
   error + ('gc \<times> (int \<times> nat) list list \<times> rng)" where
  "wright_fisher fitness_of mutate_in gc population mutation_rate num_generations rng =
     (let pop = population_array population;
          population_size = population_size_of population
      in if population_size < 1 then Inl ValueError
         else if mutation_rate < 0 then Inl ValueError
         else if num_generations < 1 then Inl ValueError
         else
           let expected_num_mutations = mutation_rate * real_of_int population_size
           in case wf_loop fitness_of mutate_in (nat population_size) expected_num_mutations
                     (nat (num_generations - 1)) gc [np_unique pop] rng of
                Inl e \<Rightarrow> Inl e
              | Inr (gc', generations, rng') \<Rightarrow>
                  Inr (gc', map (\<lambda>(seen, counts). zip seen counts) generations, rng'))"

section \<open>The mutation target of a branch (eee/simulation/core/engine/follow_tree.py)\<close>

text \<open>\<^verbatim>\<open>int(np.round(x,0))\<close>: rounding to the nearest integer, a tie to the even one.\<close>

definition np_round :: "real \<Rightarrow> int" where
  "np_round x =
     (let f = \<lfloor>x\<rfloor>; d = x - of_int f
      in if d < 1 / 2 then f else if 1 / 2 < d then f + 1
         else if even f then f else f + 1)"

text \<open>
  The first half of \<^verbatim>\<open>_simulate_branch\<close>, up to the call of the simulation: the number
  of mutations handed on as \<^verbatim>\<open>num_mutations\<close>. The function
  \<^verbatim>\<open>get_num_accumulated_mutations\<close> is not among the sources; its result, a count of
  mutations, is the parameter \<open>num_mutations_start\<close>.
\<close>

definition simulate_branch_num_mutations :: "real \<Rightarrow> nat \<Rightarrow> nat \<Rightarrow> int" where
  "simulate_branch_num_mutations branch_length sequence_length num_mutations_start =
     (let num_mutations = np_round (branch_length * real sequence_length);
          num_mutations = num_mutations + int num_mutations_start
      in if num_mutations = 0 then 1 else num_mutations)"

section \<open>Ensemble (eee/core/ensemble.py)\<close>

subsection \<open>numpy arithmetic\<close>

text \<open>
  \<^verbatim>\<open>np.finfo('d').max\<close>, and \<^verbatim>\<open>np.exp\<close> with its underflow: on IEEE doubles the
  exponential of \<open>x\<close> is zero as soon as \<open>exp x\<close> is at most half the smallest
  subnormal number, \<open>2 ^ -1075\<close>. The sources count on it
  (\<^verbatim>\<open>Low weights might underflow\<close>) and test the weight sums for zero.
\<close>

definition float_max :: real where
  "float_max = (2 - 1 / 2 ^ 52) * 2 ^ 1023"

definition np_exp :: "real \<Rightarrow> real" where
  "np_exp x = (if x \<le> - 1075 * ln 2 then 0 else exp x)"

text \<open>A float of an output array: a number, an infinity or not-a-number.\<close>

datatype npfloat = Num real | Inf | NaN

text \<open>\<^verbatim>\<open>a / b\<close> for a non-negative \<open>a\<close>: numpy warns and gives nan for 0/0, inf for a/0.\<close>

definition np_div :: "real \<Rightarrow> real \<Rightarrow> npfloat" where
  "np_div a b = (if b = 0 then (if a = 0 then NaN else Inf) else Num (a / b))"

text \<open>
  Broadcasting of two one-dimensional arrays under an elementwise operation: equal
  lengths, or one of them of length one; anything else is a ValueError.
\<close>

definition np_broadcast :: "('a \<Rightarrow> 'b \<Rightarrow> 'c) \<Rightarrow> 'a list \<Rightarrow> 'b list \<Rightarrow> error + 'c list" where
  "np_broadcast f xs ys =
     (if length xs = length ys then Inr (map2 f xs ys)
      else if length xs = 1 then Inr (map (f (hd xs)) ys)
      else if length ys = 1 then Inr (map (\<lambda>x. f x (hd ys)) xs)
      else Inl ValueError)"

text \<open>\<^verbatim>\<open>np.max(m, axis=0)\<close>: the maximum of every column; no rows is a ValueError.\<close>

definition np_max_axis0 :: "real list list \<Rightarrow> error + real list" where
  "np_max_axis0 m = (case m of [] \<Rightarrow> Inl ValueError | r # rs \<Rightarrow> Inr (fold (map2 max) rs r))"

text \<open>
  \<^verbatim>\<open>np.sum(m[mask,:], axis=0)\<close> for a matrix with at least one row: the sum of the rows
  that the boolean mask selects. A mask of another length than the number of rows is an
  IndexError.
\<close>

definition np_sum_masked :: "bool list \<Rightarrow> real list list \<Rightarrow> error + real list" where
  "np_sum_masked bmask m =
     (if length bmask \<noteq> length m then Inl IndexError
      else Inr (fold (map2 (+)) (map snd (filter fst (zip bmask m)))
                  (replicate (length (hd m)) 0)))"

text \<open>
  \<^verbatim>\<open>out = np.zeros(len(mask)); out[mask] = np.nan; out[not_mask] = values\<close>, the
  values in the order of the unmasked positions.
\<close>

fun fill_masked :: "bool list \<Rightarrow> real list \<Rightarrow> npfloat list" where
  "fill_masked [] vs = []"
| "fill_masked (True # ms) vs = NaN # fill_masked ms vs"
| "fill_masked (False # ms) [] = []"
| "fill_masked (False # ms) (v # vs) = Num v # fill_masked ms vs"

text \<open>The values of \<open>xs\<close> at the positions where the mask is false.\<close>

definition unmasked :: "bool list \<Rightarrow> 'a list \<Rightarrow> 'a list" where
  "unmasked bmask xs = map snd (filter (\<lambda>(m, x). \<not> m) (zip bmask xs))"

subsection \<open>The ensemble\<close>

text \<open>
  A species is the dictionary \<^verbatim>\<open>{"observable": .., "folded": .., "dG0": .., <ligand>: ..}\<close>;
  the ligand entries are kept apart as \<open>sp_stoich\<close> (a keyword argument cannot be named
  \<^verbatim>\<open>dG0\<close>, \<^verbatim>\<open>observable\<close> or \<^verbatim>\<open>folded\<close>, so no ligand of the ensemble has such a name).
\<close>

record species =
  sp_observable :: bool
  sp_folded :: bool
  sp_dG0 :: real
  sp_stoich :: "(string \<times> real) list"

text \<open>What \<^verbatim>\<open>_build_z_matrix\<close> creates: the attributes do not exist before its first call.\<close>

record z_state =
  z_matrix :: "real list list"
  obs_mask :: "bool list"
  folded_mask :: "bool list"
  not_obs_mask :: "bool list"
  unfolded_mask :: "bool list"

record ensemble =
  gas_constant :: real
  species_dict :: "(string \<times> species) list"
  species_list :: "string list"
  ligand_list :: "string list"
  max_allowed :: real
  built :: "z_state option"

text \<open>
  Modelled from the spec: \<^verbatim>\<open>check_float\<close> (module \<^verbatim>\<open>eee._private.check.standard\<close>) is
  not among the sources. The specification has the gas constant strictly positive and
  every stoichiometry a non-negative real; a value below the bound fails.
\<close>

definition check_float :: "real \<Rightarrow> real option \<Rightarrow> bool \<Rightarrow> error + real" where
  "check_float v minimum_allowed minimum_inclusive =
     (case minimum_allowed of
        None \<Rightarrow> Inr v
      | Some m \<Rightarrow> if v < m \<or> (\<not> minimum_inclusive \<and> v = m) then Inl ValueError else Inr v)"

definition Ensemble_init :: "real \<Rightarrow> error + ensemble" where
  "Ensemble_init R =
     ebind (check_float R (Some 0) False) (\<lambda>R.
     Inr \<lparr> gas_constant = R, species_dict = [], species_list = [], ligand_list = [],
           max_allowed = ln float_max * 0.01, built = None \<rparr>)"

text \<open>The loop over the keyword arguments of \<^verbatim>\<open>add_species\<close>.\<close>

fun check_ligands :: "(string \<times> real) list \<Rightarrow> error + (string \<times> real) list" where
  "check_ligands [] = Inr []"
| "check_ligands ((lig, v) # rest) =
     ebind (check_float v (Some 0) True) (\<lambda>v.
     ebind (check_ligands rest) (\<lambda>rest'. Inr (AList.update lig v rest')))"

definition add_species ::
  "ensemble \<Rightarrow> string \<Rightarrow> real \<Rightarrow> bool \<Rightarrow> bool \<Rightarrow> (string \<times> real) list \<Rightarrow> error + ensemble" where
  "add_species ens name dG0 observable folded ligands =
     (if name \<in> set (map fst (species_dict ens)) then Inl ValueError
      else
        ebind (check_ligands ligands) (\<lambda>stoich.
        Inr (ens\<lparr> species_dict := species_dict ens @
                     [(name, \<lparr> sp_observable = observable, sp_folded = folded,
                               sp_dG0 = dG0, sp_stoich = stoich \<rparr>)],
                  ligand_list := fold (\<lambda>lig ls. if lig \<in> set ls then ls else ls @ [lig])
                                   (map fst ligands) (ligand_list ens),
                  species_list := species_list ens @ [name] \<rparr>)))"

subsection \<open>Dictionaries of ligand potentials, as objects\<close>

text \<open>
  A ligand dictionary maps a ligand to an array of potentials, one per condition (a
  scalar potential is the array of length one). The queries below receive a dictionary
  as a Python object and \<^verbatim>\<open>_build_z_matrix\<close> assigns to it, so dictionaries live in a
  store and are passed by reference: a reference is a position of the store, and a
  reference that a caller holds is a position inside it.
\<close>

type_synonym ligand_dict = "(string \<times> real list) list"
type_synonym store = "ligand_dict list"

text \<open>
  The first lines of \<^verbatim>\<open>_build_z_matrix\<close>: the number of conditions, and the
  assignments \<^verbatim>\<open>ligand_dict[lig] = np.zeros(...)\<close> for the ligands that the dictionary
  does not hold.
\<close>

definition num_conditions_of :: "ligand_dict \<Rightarrow> nat" where
  "num_conditions_of ld = (case ld of [] \<Rightarrow> 1 | (lig, arr) # rest \<Rightarrow> length arr)"

definition fill_ligand_dict :: "string list \<Rightarrow> ligand_dict \<Rightarrow> ligand_dict" where
  "fill_ligand_dict ligs ld =
     (let num_conditions = num_conditions_of ld;
          ld1 = (if ld = [] then fold (\<lambda>lig d. AList.update lig (replicate 1 0) d) ligs ld
                 else ld)
      in fold (\<lambda>lig d. if lig \<in> set (map fst d) then d
                        else AList.update lig (replicate num_conditions 0) d) ligs ld1)"

text \<open>
  The local dictionary \<^verbatim>\<open>stoich\<close>: for every name of \<^verbatim>\<open>_species_list\<close> and every key
  of the ligand dictionary, the species' stoichiometry or 0.
\<close>

definition build_stoich ::
  "ensemble \<Rightarrow> ligand_dict \<Rightarrow> error + (string \<times> (string \<times> real) list) list" where
  "build_stoich ens ld =
     those_ok (map (\<lambda>species_name.
         ebind (dict_get (species_dict ens) species_name) (\<lambda>sp.
         Inr (species_name,
              map (\<lambda>lig. (lig, case map_of (sp_stoich sp) lig of Some v \<Rightarrow> v | None \<Rightarrow> 0))
                  (map fst ld))))
       (species_list ens))"

text \<open>
  The innermost loop \<^verbatim>\<open>for lig in self._ligand_list: z[i,j] -= ligand_dict[lig][j]*stoich[species_name][lig]\<close>.
\<close>

fun z_entry ::
  "ligand_dict \<Rightarrow> (string \<times> (string \<times> real) list) list \<Rightarrow> string \<Rightarrow> nat \<Rightarrow> string list \<Rightarrow>
   real \<Rightarrow> error + real" where
  "z_entry ld stoich species_name j [] acc = Inr acc"
| "z_entry ld stoich species_name j (lig # ligs) acc =
     ebind (dict_get ld lig) (\<lambda>arr.
     ebind (py_index arr (int j)) (\<lambda>potential.
     ebind (dict_get stoich species_name) (\<lambda>row.
     ebind (dict_get row lig) (\<lambda>s.
     z_entry ld stoich species_name j ligs (acc - potential * s)))))"

definition build_z_matrix :: "ensemble \<Rightarrow> store \<Rightarrow> nat \<Rightarrow> error + (store \<times> ensemble)" where
  "build_z_matrix ens st r =
     (let num_conditions = num_conditions_of (st ! r);
          ld = fill_ligand_dict (ligand_list ens) (st ! r);
          st' = st[r := ld]
      in
      ebind (build_stoich ens ld) (\<lambda>stoich.
      ebind (those_ok (map (\<lambda>(species_name, sp).
               those_ok (map (\<lambda>j. z_entry ld stoich species_name j (ligand_list ens) (sp_dG0 sp))
                             [0..<num_conditions]))
             (species_dict ens))) (\<lambda>z.
      let obs = map (\<lambda>(species_name, sp). sp_observable sp) (species_dict ens);
          folded = map (\<lambda>(species_name, sp). sp_folded sp) (species_dict ens)
      in Inr (st', ens\<lparr> built := Some \<lparr> z_matrix = z, obs_mask = obs, folded_mask = folded,
                                        not_obs_mask = map Not obs,
                                        unfolded_mask = map Not folded \<rparr> \<rparr>))))"

subsection \<open>Boltzmann weights and the fast observables\<close>

text \<open>
  \<open>NonFinite\<close> below is not a Python exception: for a temperature with
  \<open>gas_constant * temperature = 0\<close> numpy divides by zero, warns, and goes on with
  infinities. The model, whose numbers are reals, stops there.
\<close>

definition get_weights :: "ensemble \<Rightarrow> real list \<Rightarrow> real list \<Rightarrow> error + real list list" where
  "get_weights ens mut_energy' temperature =
     (case built ens of
        None \<Rightarrow> Inl AttributeError
      | Some zs \<Rightarrow>
          if list_ex (\<lambda>t. gas_constant ens * t = 0) temperature then Inl NonFinite
          else
            let beta = map (\<lambda>t. 1 / (gas_constant ens * t)) temperature in
            ebind (np_broadcast (\<lambda>row m. map (\<lambda>e. e + m) row) (z_matrix zs) mut_energy') (\<lambda>shifted.
            ebind (those_ok (map (\<lambda>row. np_broadcast (\<lambda>b e. - b * e) beta row) shifted)) (\<lambda>weights.
            ebind (np_max_axis0 weights) (\<lambda>col_max.
            let shift = map (\<lambda>m. max_allowed ens - m) col_max
            in Inr (map (\<lambda>row. map np_exp (map2 (+) row shift)) weights)))))"

text \<open>
  \<^verbatim>\<open>get_fx_obs_fast\<close> and \<^verbatim>\<open>get_dG_obs_fast\<close>. In the latter the factor
  \<^verbatim>\<open>-1/(self._gas_constant*temperature)\<close> is the whole temperature array, while the
  logarithm is taken at the unmasked conditions only: the product is a broadcast of the
  two, and its assignment to \<^verbatim>\<open>dG_out[not_mask]\<close> needs as many values as there are
  unmasked conditions, or a single one.
\<close>

definition get_fx_obs_fast ::
  "ensemble \<Rightarrow> real list \<Rightarrow> real list \<Rightarrow> error + (npfloat list \<times> npfloat list)" where
  "get_fx_obs_fast ens mut_energy_array temperature =
     ebind (get_weights ens mut_energy_array temperature) (\<lambda>weights.
     case built ens of
       None \<Rightarrow> Inl AttributeError
     | Some zs \<Rightarrow>
         ebind (np_sum_masked (obs_mask zs) weights) (\<lambda>obs.
         ebind (np_sum_masked (not_obs_mask zs) weights) (\<lambda>not_obs.
         ebind (np_sum_masked (folded_mask zs) weights) (\<lambda>folded.
         ebind (np_sum_masked (unfolded_mask zs) weights) (\<lambda>unfolded.
         Inr (map2 np_div obs (map2 (+) obs not_obs),
              map2 np_div folded (map2 (+) folded unfolded)))))))"

definition get_dG_obs_fast ::
  "ensemble \<Rightarrow> real list \<Rightarrow> real list \<Rightarrow> error + (npfloat list \<times> npfloat list)" where
  "get_dG_obs_fast ens mut_energy_array temperature =
     ebind (get_weights ens mut_energy_array temperature) (\<lambda>weights.
     case built ens of
       None \<Rightarrow> Inl AttributeError
     | Some zs \<Rightarrow>
         ebind (np_sum_masked (obs_mask zs) weights) (\<lambda>obs.
         ebind (np_sum_masked (not_obs_mask zs) weights) (\<lambda>not_obs.
         let bmask = map2 (\<lambda>ob nob. ob = 0 \<or> nob = 0) obs not_obs;
             logs = map (\<lambda>(ob, nob). ln (ob / nob)) (unmasked bmask (zip obs not_obs))
         in
         ebind (np_broadcast (\<lambda>t l. - 1 / (gas_constant ens * t) * l) temperature logs) (\<lambda>rhs.
         ebind (if length rhs = length logs then Inr rhs
                else if length rhs = 1 then Inr (replicate (length logs) (hd rhs))
                else Inl ValueError) (\<lambda>vals.
         ebind (np_sum_masked (folded_mask zs) weights) (\<lambda>folded.
         ebind (np_sum_masked (unfolded_mask zs) weights) (\<lambda>unfolded.
         Inr (fill_masked bmask vals,
              map2 np_div folded (map2 (+) folded unfolded)))))))))"

definition mut_dict_to_array :: "ensemble \<Rightarrow> (string \<times> real) list \<Rightarrow> real list" where
  "mut_dict_to_array ens mut_energy' =
     map (\<lambda>s. case map_of mut_energy' s of Some v \<Rightarrow> v | None \<Rightarrow> 0) (species_list ens)"

subsection \<open>The checked queries\<close>

text \<open>
  The validators of \<^verbatim>\<open>eee._private.check.eee\<close> are not among the sources.
  \<^verbatim>\<open>check_mut_energy\<close> and the \<^verbatim>\<open>check_float\<close> of \<^verbatim>\<open>get_species_dG\<close> coerce to
  floats and are the identity on the typed arguments here. \<^verbatim>\<open>check_ligand_dict\<close> is
  a parameter of the queries: it receives the store and the reference of the dictionary
  and returns the store, the reference of the validated dictionary and the number of
  conditions.
\<close>

type_synonym ligand_check = "store \<Rightarrow> nat \<Rightarrow> error + (store \<times> nat \<times> nat)"

text \<open>
  Modelled from the spec: an instance of \<^verbatim>\<open>check_ligand_dict\<close>. The specification asks
  that every array of a condition set share one length, the condition count, that an
  empty set stand for a single condition, and that a malformed set fail. This instance
  hands the caller's dictionary on as it is.
\<close>

definition check_ligand_dict :: ligand_check where
  "check_ligand_dict st r =
     (if list_ex (\<lambda>(lig, arr). length arr \<noteq> num_conditions_of (st ! r)) (st ! r)
      then Inl ValueError
      else Inr (st, r, num_conditions_of (st ! r)))"

text \<open>
  Modelled from the spec: \<^verbatim>\<open>check_temperature\<close>. The temperature is a positive
  scalar, used for every condition, or an array of positive values whose length is the
  number of conditions.
\<close>

datatype temperature_arg = TScalar real | TArray "real list"

definition check_temperature :: "temperature_arg \<Rightarrow> nat \<Rightarrow> error + real list" where
  "check_temperature temperature num_conditions =
     (case temperature of
        TScalar t \<Rightarrow> if t \<le> 0 then Inl ValueError else Inr (replicate num_conditions t)
      | TArray ts \<Rightarrow>
          if list_ex (\<lambda>t. t \<le> 0) ts \<or> length ts \<noteq> num_conditions then Inl ValueError
          else Inr ts)"

datatype dG_value = Scalar real | Array "real list"

text \<open>
  \<^verbatim>\<open>get_species_dG\<close>. Without a dictionary the method makes a new, empty one. The
  result carries the store and the ensemble as the call leaves them.
\<close>

definition get_species_dG ::
  "ligand_check \<Rightarrow> ensemble \<Rightarrow> store \<Rightarrow> string \<Rightarrow> real \<Rightarrow> nat option \<Rightarrow>
   error + (store \<times> ensemble \<times> dG_value)" where
  "get_species_dG chk ens st name mut_energy' ligand_dict =
     (if name \<notin> set (map fst (species_dict ens)) then Inl ValueError
      else
        let st0 = (case ligand_dict of None \<Rightarrow> st @ [[]] | Some r \<Rightarrow> st);
            r0 = (case ligand_dict of None \<Rightarrow> length st | Some r \<Rightarrow> r)
        in
        ebind (chk st0 r0) (\<lambda>(st1, r1, num_conditions).
        ebind (build_z_matrix ens st1 r1) (\<lambda>(st2, ens2).
        ebind (list_index (species_list ens2) name) (\<lambda>idx.
        case built ens2 of
          None \<Rightarrow> Inl AttributeError
        | Some zs \<Rightarrow>
            ebind (py_index (z_matrix zs) (int idx)) (\<lambda>row.
            let dG = map (\<lambda>e. e + mut_energy') row
            in Inr (st2, ens2, if length dG = 1 then Scalar (hd dG) else Array dG))))))"

text \<open>
  \<^verbatim>\<open>read_ligand_dict\<close>. Its default argument \<^verbatim>\<open>{}\<close> is one object, made when the
  method is defined; a call without argument passes the reference of that object.
\<close>

definition read_ligand_dict :: "ligand_check \<Rightarrow> ensemble \<Rightarrow> store \<Rightarrow> nat \<Rightarrow> error + (store \<times> ensemble)" where
  "read_ligand_dict chk ens st ligand_dict =
     ebind (chk st ligand_dict) (\<lambda>(st1, r1, num_conditions). build_z_matrix ens st1 r1)"

text \<open>\<^verbatim>\<open>np.sum(m, axis=0)\<close> for a matrix with at least one row.\<close>

definition np_sum_axis0 :: "real list list \<Rightarrow> real list" where
  "np_sum_axis0 m = fold (map2 (+)) m (replicate (length (hd m)) 0)"

text \<open>
  \<^verbatim>\<open>get_obs\<close>. The dictionary \<^verbatim>\<open>out\<close> is filled in the order of the source, a later
  key replacing an equal earlier one; \<^verbatim>\<open>pd.DataFrame(out)\<close> refuses columns of
  different lengths.
\<close>

definition get_obs ::
  "ligand_check \<Rightarrow> ensemble \<Rightarrow> store \<Rightarrow> (string \<times> real) list option \<Rightarrow> nat option \<Rightarrow>
   temperature_arg \<Rightarrow> error + (store \<times> ensemble \<times> (string \<times> npfloat list) list)" where
  "get_obs chk ens st mut_energy' ligand_dict temperature =
     (if length (species_dict ens) < 2 then Inl ValueError
      else
        let num_obs = length (filter (\<lambda>(s, sp). sp_observable sp) (species_dict ens)) in
        if num_obs < 1 \<or> num_obs > length (species_dict ens) - 1 then Inl ValueError
        else
          let mut_energy' = (case mut_energy' of
                              None \<Rightarrow> map (\<lambda>(s, sp). (s, 0)) (species_dict ens)
                            | Some m \<Rightarrow> m);
              st0 = (case ligand_dict of
                       None \<Rightarrow> st @ [map (\<lambda>m. (m, replicate 1 0)) (ligand_list ens)]
                     | Some r \<Rightarrow> st);
              r0 = (case ligand_dict of None \<Rightarrow> length st | Some r \<Rightarrow> r)
          in
          ebind (chk st0 r0) (\<lambda>(st1, r1, num_conditions).
          ebind (check_temperature temperature num_conditions) (\<lambda>temperature.
          ebind (build_z_matrix ens st1 r1) (\<lambda>(st2, ens2).
          case built ens2 of
            None \<Rightarrow> Inl AttributeError
          | Some zs \<Rightarrow>
              ebind (get_weights ens2 (mut_dict_to_array ens2 mut_energy') temperature) (\<lambda>weights.
              ebind (np_sum_masked (obs_mask zs) weights) (\<lambda>obs.
              ebind (np_sum_masked (not_obs_mask zs) weights) (\<lambda>not_obs.
              let out = [(''temperature'', map Num temperature)];
                  out = fold (\<lambda>(lig, arr) d. AList.update lig (map Num arr) d) (st2 ! r1) out
              in
              ebind (those_ok (map (\<lambda>(i, species_name).
                       ebind (py_index weights (int i)) (\<lambda>row.
                       Inr (species_name, map2 np_div row (np_sum_axis0 weights))))
                     (enumerate 0 (species_list ens2)))) (\<lambda>fractions.
              let out = fold (\<lambda>(species_name, col) d. AList.update species_name col d)
                          fractions out;
                  out = AList.update ''fx_obs'' (map2 np_div obs (map2 (+) obs not_obs)) out;
                  nan_mask = map2 (\<lambda>ob nob. ob = 0 \<or> nob = 0) obs not_obs
              in
              if length temperature \<noteq> length nan_mask then Inl IndexError
              else
                let vals = map2 (\<lambda>t (ob, nob). - 1 / (gas_constant ens2 * t) * ln (ob / nob))
                             (unmasked nan_mask temperature)
                             (unmasked nan_mask (zip obs not_obs));
                    out = AList.update ''dG_obs'' (fill_masked nan_mask vals) out
                in
                ebind (np_sum_masked (folded_mask zs) weights) (\<lambda>folded.
                ebind (np_sum_masked (unfolded_mask zs) weights) (\<lambda>unfolded.
                let out = AList.update ''fx_folded''
                            (map2 np_div folded (map2 (+) folded unfolded)) out
                in if list_ex (\<lambda>(k, col). length col \<noteq> length temperature) out
                   then Inl ValueError
                   else Inr (st2, ens2, out)))))))))))"

chapter \<open>Properties\<close>

section \<open>Helper lemmas\<close>

lemma ebind_Inr: "ebind m f = Inr y \<Longrightarrow> \<exists>x. m = Inr x \<and> f x = Inr y"
  by (cases m) auto

lemmas genotype_simps = mutate_def Genotype_init_def Genotype_copy_def np_random_choice_def
  py_index_def dict_get_def list_remove_def

lemmas wright_fisher_simps = wright_fisher_def population_array_def population_size_of_def
  wf_step_def np_unique_def np_random_choice_p_def np_random_poisson_def gc_mutate_def

lemma np_unique_sum: "sum_list (snd (np_unique p)) = length p"
proof -
  have "sum_list (map (count_list p) (remdups (sort p))) =
        sum (count_list p) (set (remdups (sort p)))"
    by (rule sum_list_distinct_conv_sum_set) simp
  also have "\<dots> = sum (count_list p) (set p)" by simp
  also have "\<dots> = length p" by (rule sum_count_set) simp_all
  finally show ?thesis by (simp add: np_unique_def Let_def)
qed

lemma np_unique_shape:
  "length (fst (np_unique p)) = length (snd (np_unique p)) \<and> distinct (fst (np_unique p))"
  by (simp add: np_unique_def Let_def)

lemma take_draws_length: "take_draws n s rng = Inr (xs, rng') \<Longrightarrow> length xs = n"
  by (induction n s rng arbitrary: xs rng' rule: take_draws.induct) (auto split: sum.splits)

lemma np_random_choice_p_length:
  "np_random_choice_p a n p rng = Inr (xs, rng') \<Longrightarrow> length xs = n"
  by (auto simp: np_random_choice_p_def split: if_splits dest: take_draws_length)

lemma mutate_first_length:
  "mutate_first M n gc done todo rng = Inr (gc', pop, rng') \<Longrightarrow>
   length pop = length done + length todo"
  by (induction M n gc "done" todo rng rule: mutate_first.induct) (auto split: sum.splits)

text \<open>What every recorded generation satisfies, for a population of \<open>ps\<close> individuals.\<close>

lemma wf_step_sum:
  assumes "wf_step F M ps lam gc last_gen rng = Inr (gc', gen, rng')"
  shows "sum_list (snd gen) = ps \<and> length (fst gen) = length (snd gen) \<and> distinct (fst gen)"
proof -
  obtain cur counts where lg: "last_gen = (cur, counts)" by (cases last_gen)
  from assms obtain prob n pop0 pop r1 r2 gcx where
    c: "np_random_choice_p cur ps prob rng = Inr (pop0, r1)" and
    m: "mutate_first M n gcx [] pop0 r2 = Inr (gc', pop, rng')" and
    g: "gen = np_unique pop"
    unfolding wf_step_def lg Let_def
    by (auto split: prod.splits dest!: ebind_Inr)
  from np_random_choice_p_length [OF c] mutate_first_length [OF m]
  have "length pop = ps" by simp
  then show ?thesis
    using np_unique_sum [of pop] np_unique_shape [of pop] g by simp
qed

lemma wf_loop_inv:
  assumes "wf_loop F M ps lam n gc gens rng = Inr (gc', gens', rng')"
    and "list_all (\<lambda>g. sum_list (snd g) = ps \<and> length (fst g) = length (snd g) \<and>
                        distinct (fst g)) gens"
  shows "list_all (\<lambda>g. sum_list (snd g) = ps \<and> length (fst g) = length (snd g) \<and>
                        distinct (fst g)) gens'
         \<and> length gens' = length gens + n"
  using assms
proof (induction n arbitrary: gc gens rng)
  case 0
  then show ?case by simp
next
  case (Suc n)
  from Suc.prems(1) obtain gc1 gen rng1 where
    st: "wf_step F M ps lam gc (last gens) rng = Inr (gc1, gen, rng1)" and
    lp: "wf_loop F M ps lam n gc1 (gens @ [gen]) rng1 = Inr (gc', gens', rng')"
    by (auto split: sum.splits)
  from wf_step_sum [OF st] Suc.prems(2)
  have "list_all (\<lambda>g. sum_list (snd g) = ps \<and> length (fst g) = length (snd g) \<and>
                       distinct (fst g)) (gens @ [gen])"
    by simp
  from Suc.IH [OF lp this] show ?case by simp
qed

lemma np_round_nonneg: "0 \<le> x \<Longrightarrow> 0 \<le> np_round x"
  by (auto simp: np_round_def Let_def)

section \<open>Genotype.mutate\<close>

text \<open>
  C1. The claim: after every call of \<open>mutate\<close>, \<open>mut_energy\<close> holds for each species the
  sum of the table's entries over the active (site, mutation) pairs; in particular the
  new mutation's offsets are applied. The source does not do so. From the wildtype, with
  the table \<^verbatim>\<open>{0: {"A0V": {"s": 1.0}}}\<close>, the call makes the pair \<open>(0, A0V)\<close> active and
  leaves \<open>mut_energy["s"]\<close> at 0, while the sum over the active pairs is 1.
\<close>

theorem mutate_leaves_new_energy_out:
  "mutate (Genotype_init [''s''] [(KInt 0, [(KStr ''A0V'', [(''s'', 1)])])] None None None)
          [0, 0]
   = Inr (Genotype_init [''s''] [(KInt 0, [(KStr ''A0V'', [(''s'', 1)])])]
            (Some [KInt 0]) (Some [KStr ''A0V'']) (Some [(''s'', 0)]), [])
   \<and> spec_mut_energy
        (Genotype_init [''s''] [(KInt 0, [(KStr ''A0V'', [(''s'', 1)])])]
           (Some [KInt 0]) (Some [KStr ''A0V'']) (Some [(''s'', 0)])) ''s'' = 1"
  by (simp add: genotype_simps spec_mut_energy_def ddg_entry_def)

text \<open>
  C7. The claim: a call of \<open>mutate\<close> is one substitution; mutating a site that is already
  mutated removes the old pair before the new one is appended, so that going from M1 to
  M2 at a site gives the \<open>mut_energy\<close> of going to M2 directly. The source differs in two
  ways. With mutations named by strings, the second mutation of site 0 raises ValueError:
  \<^verbatim>\<open>self._mutations.remove(idx)\<close> looks for the integer 0 among the mutation names.
  With mutations named by integers (table \<^verbatim>\<open>{0: {0: {"s": 1.0}, 1: {"s": 2.0}}}\<close>) the
  call returns, and the path wildtype, 0, 1 ends with \<open>mut_energy["s"] = -1\<close> while the
  direct path to 1 ends with 0.
\<close>

theorem mutate_twice_diverges:
  "mutate (Genotype_init [''s'']
             [(KInt 0, [(KStr ''A0V'', [(''s'', 1)]), (KStr ''A0G'', [(''s'', 2)])])]
             (Some [KInt 0]) (Some [KStr ''A0V'']) (Some [(''s'', 1)])) [0, 1]
   = Inl ValueError
   \<and> ebind (mutate (Genotype_init [''s'']
                      [(KInt 0, [(KInt 0, [(''s'', 1)]), (KInt 1, [(''s'', 2)])])]
                      None None None) [0, 0, 0, 1])
           (\<lambda>(g, rng). mutate g rng)
     = Inr (Genotype_init [''s''] [(KInt 0, [(KInt 0, [(''s'', 1)]), (KInt 1, [(''s'', 2)])])]
              (Some [KInt 0]) (Some [KInt 1]) (Some [(''s'', - 1)]), [])
   \<and> mutate (Genotype_init [''s'']
               [(KInt 0, [(KInt 0, [(''s'', 1)]), (KInt 1, [(''s'', 2)])])]
               None None None) [0, 1]
     = Inr (Genotype_init [''s''] [(KInt 0, [(KInt 0, [(''s'', 1)]), (KInt 1, [(''s'', 2)])])]
              (Some [KInt 0]) (Some [KInt 1]) (Some [(''s'', 0)]), [])"
  by (simp add: genotype_simps)

section \<open>Wright-Fisher simulation\<close>

text \<open>
  C2. The claim: when every genotype present has fitness 0, the step does not raise and
  draws the next generation with uniform weights. In the source the fallback weights are
  \<^verbatim>\<open>np.ones(population_size)\<close>, one per individual, while the array sampled from,
  \<^verbatim>\<open>current_genotypes\<close>, has one entry per distinct genotype; numpy refuses the two
  lengths. Two wildtype individuals of fitness 0, two generations: ValueError.
\<close>

theorem wright_fisher_zero_fitness_raises:
  "wright_fisher fitnesses (gc_mutate (\<lambda>g. 0))
     \<lparr>genotypes = [Genotype_init [''s''] [(KInt 0, [(KStr ''A0V'', [(''s'', 1)])])]
                     None None None],
      fitnesses = [0]\<rparr>
     (PopInt 2) 0 2 [0, 0, 0]
   = Inl ValueError"
  by (simp add: wright_fisher_simps genotype_simps Let_def eval_nat_numeral)

text \<open>
  C6. Every generation that a run of \<open>wright_fisher\<close> returns, generation 0 included, is
  a mapping with distinct keys whose counts sum to the initial population size; there
  are \<open>num_generations\<close> of them. This holds for every container (fitness array and
  \<open>mutate\<close> method).
\<close>

theorem wright_fisher_conserves_population:
  assumes "wright_fisher F M gc population mutation_rate num_generations rng
           = Inr (gc', generations, rng')"
  shows "list_all (\<lambda>g. int (sum_list (map snd g)) = population_size_of population \<and>
                        distinct (map fst g)) generations
         \<and> int (length generations) = num_generations"
proof -
  let ?ps = "nat (population_size_of population)"
  let ?P = "\<lambda>g::int list \<times> nat list.
              sum_list (snd g) = ?ps \<and> length (fst g) = length (snd g) \<and> distinct (fst g)"
  from assms have ps: "1 \<le> population_size_of population" and ng: "1 \<le> num_generations"
    by (auto simp: wright_fisher_def Let_def split: if_splits)
  from assms obtain gens where
    lp: "wf_loop F M ?ps (mutation_rate * real_of_int (population_size_of population))
           (nat (num_generations - 1)) gc [np_unique (population_array population)] rng
         = Inr (gc', gens, rng')"
    and g: "generations = map (\<lambda>(seen, counts). zip seen counts) gens"
    by (auto simp: wright_fisher_def Let_def split: if_splits sum.splits)
  have len: "length (population_array population) = ?ps"
    using ps
    by (auto simp: population_size_of_def population_array_def split: population_arg.splits)
  have "list_all ?P [np_unique (population_array population)]"
    using np_unique_sum [of "population_array population"]
      np_unique_shape [of "population_array population"] len
    by simp
  from wf_loop_inv [OF lp this]
  have inv: "list_all ?P gens" and l: "length gens = 1 + nat (num_generations - 1)"
    by simp_all
  have "list_all (\<lambda>g. int (sum_list (map snd g)) = population_size_of population \<and>
                       distinct (map fst g)) generations"
    unfolding g using inv ps by (induction gens) (auto simp: map_fst_zip map_snd_zip)
  moreover have "int (length generations) = num_generations" using l ng g by simp
  ultimately show ?thesis by simp
qed

theorem wright_fisher_conserves_population_witness:
  "wright_fisher fitnesses (gc_mutate (\<lambda>g. 1))
     \<lparr>genotypes = [Genotype_init [''s''] [(KInt 0, [(KStr ''A0V'', [(''s'', 1)])])]
                     None None None],
      fitnesses = [1]\<rparr>
     (PopDict [(0, 2)]) 1 2 [0, 0, 1, 0, 0]
   = Inr (\<lparr>genotypes =
             [Genotype_init [''s''] [(KInt 0, [(KStr ''A0V'', [(''s'', 1)])])] None None None,
              Genotype_init [''s''] [(KInt 0, [(KStr ''A0V'', [(''s'', 1)])])]
                (Some [KInt 0]) (Some [KStr ''A0V'']) (Some [(''s'', 0)])],
            fitnesses = [1, 1]\<rparr>,
          [[(0, 2)], [(0, 1), (1, 1)]], [])
   \<and> list_all (\<lambda>g. int (sum_list (map snd g)) = population_size_of (PopDict [(0, 2)]) \<and>
                     distinct (map fst g)) [[(0::int, 2::nat)], [(0, 1), (1, 1)]]
   \<and> int (length [[(0::int, 2::nat)], [(0, 1), (1, 1)]]) = 2"
proof -
  have run:
    "wright_fisher fitnesses (gc_mutate (\<lambda>g. 1))
       \<lparr>genotypes = [Genotype_init [''s''] [(KInt 0, [(KStr ''A0V'', [(''s'', 1)])])]
                       None None None],
        fitnesses = [1]\<rparr>
       (PopDict [(0, 2)]) 1 2 [0, 0, 1, 0, 0]
     = Inr (\<lparr>genotypes =
               [Genotype_init [''s''] [(KInt 0, [(KStr ''A0V'', [(''s'', 1)])])] None None None,
                Genotype_init [''s''] [(KInt 0, [(KStr ''A0V'', [(''s'', 1)])])]
                  (Some [KInt 0]) (Some [KStr ''A0V'']) (Some [(''s'', 0)])],
              fitnesses = [1, 1]\<rparr>,
            [[(0, 2)], [(0, 1), (1, 1)]], [])"
    by (simp add: wright_fisher_simps genotype_simps Let_def eval_nat_numeral)
  from wright_fisher_conserves_population [OF run] run show ?thesis by simp
qed

section \<open>The mutation target of a branch\<close>

text \<open>
  C5, as the source has it. The target handed to the simulation is
  \<open>round(branch_length * sequence_length)\<close> plus the count at the start of the branch,
  with one exception: a sum of zero is replaced by 1. So it is at least 1 whenever the
  branch term rounds to zero, and at least 1 on every branch of non-negative length.
\<close>

theorem simulate_branch_target:
  "simulate_branch_num_mutations bl sl start =
     (if np_round (bl * real sl) + int start = 0 then 1
      else np_round (bl * real sl) + int start)
   \<and> (np_round (bl * real sl) = 0 \<longrightarrow> 1 \<le> simulate_branch_num_mutations bl sl start)
   \<and> (0 \<le> bl \<longrightarrow> 1 \<le> simulate_branch_num_mutations bl sl start)"
  using np_round_nonneg [of "bl * real sl"]
  by (auto simp: simulate_branch_num_mutations_def Let_def)

theorem simulate_branch_target_witness:
  "np_round (0 * real (10::nat)) = 0 \<and> (0::real) \<le> 0
   \<and> simulate_branch_num_mutations 0 10 0 = 1
   \<and> 1 \<le> simulate_branch_num_mutations 0 10 0"
  using simulate_branch_target [of 0 10 0] by (simp add: np_round_def)

text \<open>
  The claim as stated asks for the sum itself on every branch. On a branch of length 0
  from a wildtype population the sum is 0 and the target is 1.
\<close>

theorem simulate_branch_target_counterexample:
  "simulate_branch_num_mutations 0 10 0 = 1 \<and> np_round (0 * real (10::nat)) + int 0 = 0"
  by (simp add: simulate_branch_num_mutations_def np_round_def)

end
